theory Spec2Isabelle
  imports Main "HOL-Library.AList"
begin

section \<open>The IR fragment read and written by GenerateCubinAccessors.cpp\<close>

text \<open>
  The pass works on a top-level module whose body is a list of operations: functions,
  LLVM globals and nested modules. Only what the pass reads or writes is kept: symbol
  names, attribute dictionaries, function types and bodies. Source locations are left out.
\<close>

datatype attribute = UnitAttr | StringAttr string | SymbolRefAttr string | OtherAttr string

type_synonym attrs = "(string \<times> attribute) list"

datatype mtype = LLVMInt8Ptr | OtherType string

text \<open>
  An SSA value is represented by the instruction that defines it, so the operand of a
  return is an instruction.
\<close>

datatype inst = GlobalStringPtr string | LLVMReturn inst | OtherInst string

record func =
  fname :: string
  ftype :: "mtype list \<times> mtype list"
  fattrs :: attrs
  fbody :: "inst list list"

record global =
  gname :: string
  gconstant :: bool
  gvalue :: string

datatype operation = FuncOp func | GlobalOp global | ModuleOp attrs "operation list"

text \<open>
  The state the pass mutates: the body of \<open>getModule()\<close>, the failure flag set by
  \<open>signalPassFailure\<close>, and the diagnostics emitted so far (function name, message).
\<close>

record pass_state =
  moduleBody :: "operation list"
  failed :: bool
  diags :: "(string \<times> string) list"

subsection \<open>Constants of the source file (lines 41-44)\<close>

definition kCubinAnnotation :: string where
  "kCubinAnnotation = ''nvvm.cubin''"

definition kCubinGetterAnnotation :: string where
  "kCubinGetterAnnotation = ''nvvm.cubingetter''"

definition kCubinGetterSuffix :: string where
  "kCubinGetterSuffix = ''_cubin''"

definition kCubinStorageSuffix :: string where
  "kCubinStorageSuffix = ''_cubin_cst''"

text \<open>
  Modelled from the spec: \<open>gpu::GPUDialect::getKernelModuleAttrName()\<close> is declared in
  GPUDialect.h, which is not among the sources. The spec only calls it the kernel-holding
  flag attribute; no theorem below depends on the spelling of the key.
\<close>

definition getKernelModuleAttrName :: string where
  "getKernelModuleAttrName = ''gpu.kernel_module''"

subsection \<open>IR helpers used by the pass\<close>

text \<open>\<open>block.getOps<FuncOp>()\<close> and \<open>block.getOps<ModuleOp>()\<close>: the operations of one kind, in order.\<close>

fun getOps_FuncOp :: "operation list \<Rightarrow> func list" where
  "getOps_FuncOp [] = []"
| "getOps_FuncOp (FuncOp f # ops) = f # getOps_FuncOp ops"
| "getOps_FuncOp (GlobalOp g # ops) = getOps_FuncOp ops"
| "getOps_FuncOp (ModuleOp a b # ops) = getOps_FuncOp ops"

fun getOps_ModuleOp :: "operation list \<Rightarrow> (attrs \<times> operation list) list" where
  "getOps_ModuleOp [] = []"
| "getOps_ModuleOp (FuncOp f # ops) = getOps_ModuleOp ops"
| "getOps_ModuleOp (GlobalOp g # ops) = getOps_ModuleOp ops"
| "getOps_ModuleOp (ModuleOp a b # ops) = (a, b) # getOps_ModuleOp ops"

fun getOps_GlobalOp :: "operation list \<Rightarrow> global list" where
  "getOps_GlobalOp [] = []"
| "getOps_GlobalOp (FuncOp f # ops) = getOps_GlobalOp ops"
| "getOps_GlobalOp (GlobalOp g # ops) = g # getOps_GlobalOp ops"
| "getOps_GlobalOp (ModuleOp a b # ops) = getOps_GlobalOp ops"

text \<open>\<open>getAttrOfType<T>(name)\<close>: the attribute stored under the key, if it has type \<open>T\<close>.\<close>

definition getAttrOfType_UnitAttr :: "attrs \<Rightarrow> string \<Rightarrow> bool" where
  "getAttrOfType_UnitAttr a k = (map_of a k = Some UnitAttr)"

definition getAttrOfType_StringAttr :: "attrs \<Rightarrow> string \<Rightarrow> string option" where
  "getAttrOfType_StringAttr a k = (case map_of a k of Some (StringAttr s) \<Rightarrow> Some s | _ \<Rightarrow> None)"

text \<open>
  Modelled from the spec: \<open>ModuleOp::lookupSymbol<FuncOp>\<close> is defined in Module.h, which
  is not among the sources. Spec 4.2 step 1: look up, by exact name match, a function in
  the parent module with the same name as the source function. The result is a handle to
  the function found (its position in the module body) together with the function, or
  \<open>None\<close> for the null handle.
\<close>

fun lookupSymbol_FuncOp :: "operation list \<Rightarrow> string \<Rightarrow> (nat \<times> func) option" where
  "lookupSymbol_FuncOp [] n = None"
| "lookupSymbol_FuncOp (FuncOp f # ops) n =
     (if fname f = n then Some (0, f)
      else map_option (\<lambda>(i, g). (Suc i, g)) (lookupSymbol_FuncOp ops n))"
| "lookupSymbol_FuncOp (GlobalOp g # ops) n =
     map_option (\<lambda>(i, g). (Suc i, g)) (lookupSymbol_FuncOp ops n)"
| "lookupSymbol_FuncOp (ModuleOp a b # ops) n =
     map_option (\<lambda>(i, g). (Suc i, g)) (lookupSymbol_FuncOp ops n)"

text \<open>In-place edits of the function behind a handle; a handle that is out of range edits nothing.\<close>

definition updateFunc :: "nat \<Rightarrow> (func \<Rightarrow> func) \<Rightarrow> operation list \<Rightarrow> operation list" where
  "updateFunc i h ops =
     (if i < length ops
      then (case ops ! i of FuncOp f \<Rightarrow> ops[i := FuncOp (h f)] | _ \<Rightarrow> ops)
      else ops)"

text \<open>\<open>OpBuilder::setInsertionPointAfter(op)\<close> followed by \<open>create\<close>: the new operation directly follows \<open>op\<close>.\<close>

definition insertAfter :: "nat \<Rightarrow> operation \<Rightarrow> operation list \<Rightarrow> operation list" where
  "insertAfter i x ops = take (Suc i) ops @ x # drop (Suc i) ops"

text \<open>\<open>FuncOp::addEntryBlock\<close>: pushes a fresh empty block.\<close>

definition addEntryBlock :: "nat \<Rightarrow> operation list \<Rightarrow> operation list" where
  "addEntryBlock i ops = updateFunc i (\<lambda>f. f\<lparr>fbody := fbody f @ [[]]\<rparr>) ops"

text \<open>A builder positioned at the end of the entry block of the function behind the handle.\<close>

definition appendInst :: "nat \<Rightarrow> inst \<Rightarrow> operation list \<Rightarrow> operation list" where
  "appendInst i x ops =
     updateFunc i (\<lambda>f. f\<lparr>fbody := (case fbody f of [] \<Rightarrow> [] | b # bs \<Rightarrow> (b @ [x]) # bs)\<rparr>) ops"

text \<open>\<open>Operation::setAttr\<close>: replaces the value under the key, or adds the key.\<close>

definition setAttr :: "nat \<Rightarrow> string \<Rightarrow> attribute \<Rightarrow> operation list \<Rightarrow> operation list" where
  "setAttr i k v ops = updateFunc i (\<lambda>f. f\<lparr>fattrs := AList.update k v (fattrs f)\<rparr>) ops"

text \<open>
  Modelled from the spec: \<open>LLVM::createGlobalString\<close> is defined in LLVMDialect.cpp, which
  is not among the sources. Spec 4.2 steps 4 and 5 and the comments at lines 64-66 and
  95-96 of the source: a module-level constant string initialised with the given bytes
  under the given name is added to the module that holds the builder's function, and the
  builder receives the computation of the address of its first character, which is
  returned as a value. The spec does not say where among the operations of the module
  the global goes; here it is put at the entry of the module, so every handle into the
  module body moves up by one. No claim below depends on that place.
\<close>

definition createGlobalString ::
  "string \<Rightarrow> string \<Rightarrow> nat \<Rightarrow> operation list \<Rightarrow> operation list \<times> inst" where
  "createGlobalString name val i ops =
     (let g = \<lparr>gname = name, gconstant = True, gvalue = val\<rparr>;
          startPtr = GlobalStringPtr name
      in (GlobalOp g # appendInst i startPtr ops, startPtr))"

definition emitError :: "func \<Rightarrow> string \<Rightarrow> pass_state \<Rightarrow> pass_state" where
  "emitError f msg st = st\<lparr>diags := diags st @ [(fname f, msg)]\<rparr>"

definition signalPassFailure :: "pass_state \<Rightarrow> pass_state" where
  "signalPassFailure st = st\<lparr>failed := True\<rparr>"

subsection \<open>\<open>GpuGenerateCubinAccessorsPass::generate\<close> (lines 68-104)\<close>

text \<open>
  One binding per statement of the source. The donor is looked up in \<open>getModule()\<close>, so
  its parent module (line 78) is the top-level module and the assertion of line 79
  holds. \<open>nameBuffer0\<close> to \<open>nameBuffer3\<close> are the contents of the name buffer after
  lines 77, 86, 92 and 93; \<open>ops1\<close> to \<open>ops5\<close> are the body of the top-level module after
  lines 88, 89, 99, 100 and 103. The getter is created right after the donor, at handle
  \<open>Suc i\<close>; once the global is in place, donor and getter are at \<open>Suc i\<close> and
  \<open>Suc (Suc i)\<close>. The private method \<open>getIndexType\<close> (lines 58-62) is never called and
  has no counterpart here.
\<close>

definition generate :: "func \<Rightarrow> string \<Rightarrow> pass_state \<Rightarrow> pass_state" where
  "generate kernelFunc blob st =
     (case lookupSymbol_FuncOp (moduleBody st) (fname kernelFunc) of
        None \<Rightarrow>
          signalPassFailure
            (emitError kernelFunc ''corresponding external function not found in parent module'' st)
      | Some (i, stubFunc) \<Rightarrow>
          (let nameBuffer0 = fname stubFunc;
               getterType = ([], [LLVMInt8Ptr]);
               nameBuffer1 = nameBuffer0 @ kCubinGetterSuffix;
               result = \<lparr>fname = nameBuffer1, ftype = getterType, fattrs = [], fbody = []\<rparr>;
               ops1 = insertAfter i (FuncOp result) (moduleBody st);
               ops2 = addEntryBlock (Suc i) ops1;
               nameBuffer2 = take (length (fname stubFunc)) nameBuffer1;
               nameBuffer3 = nameBuffer2 @ kCubinStorageSuffix;
               (ops3, startPtr) = createGlobalString nameBuffer3 blob (Suc i) ops2;
               ops4 = appendInst (Suc (Suc i)) (LLVMReturn startPtr) ops3;
               ops5 = setAttr (Suc i) kCubinGetterAnnotation (SymbolRefAttr (fname result)) ops4
           in st\<lparr>moduleBody := ops5\<rparr>))"

subsection \<open>\<open>GpuGenerateCubinAccessorsPass::runOnModule\<close> (lines 107-121)\<close>

text \<open>
  \<open>module.erase()\<close>. The handle of a nested module is its rank among the nested modules
  of the top-level body: \<open>generate\<close> inserts functions and globals only, so the rank of a
  module does not change while its functions are processed.
\<close>

fun eraseModule :: "nat \<Rightarrow> operation list \<Rightarrow> operation list" where
  "eraseModule k [] = []"
| "eraseModule k (FuncOp f # ops) = FuncOp f # eraseModule k ops"
| "eraseModule k (GlobalOp g # ops) = GlobalOp g # eraseModule k ops"
| "eraseModule k (ModuleOp a b # ops) =
     (case k of 0 \<Rightarrow> ops | Suc k' \<Rightarrow> ModuleOp a b # eraseModule k' ops)"

text \<open>The inner loop, lines 115-118.\<close>

fun runOnFuncs :: "func list \<Rightarrow> pass_state \<Rightarrow> pass_state" where
  "runOnFuncs [] st = st"
| "runOnFuncs (func # funcs) st =
     runOnFuncs funcs
       (case getAttrOfType_StringAttr (fattrs func) kCubinAnnotation of
          Some blob \<Rightarrow> generate func blob st
        | None \<Rightarrow> st)"

text \<open>
  The outer loop, lines 111-120, over the nested modules still to be visited. \<open>k\<close> is the
  rank of the module being visited: the number of nested modules already visited and
  kept. The early-increment range reads the successor before the body runs, so erasing
  the visited module does not disturb the walk, and no nested module is ever inserted;
  the modules visited are therefore those of the body at the start.
\<close>

fun runOnModules :: "(attrs \<times> operation list) list \<Rightarrow> nat \<Rightarrow> pass_state \<Rightarrow> pass_state" where
  "runOnModules [] k st = st"
| "runOnModules ((a, b) # modules) k st =
     (if \<not> getAttrOfType_UnitAttr a getKernelModuleAttrName
      then runOnModules modules (Suc k) st
      else (let st1 = runOnFuncs (getOps_FuncOp b) st;
                st2 = st1\<lparr>moduleBody := eraseModule k (moduleBody st1)\<rparr>
            in runOnModules modules k st2))"

definition runOnModule :: "pass_state \<Rightarrow> pass_state" where
  "runOnModule st = runOnModules (getOps_ModuleOp (moduleBody st)) 0 st"

section \<open>Notions used to state and prove the claims\<close>

subsection \<open>The operations \<open>generate\<close> emits\<close>

text \<open>
  What \<open>generate\<close> builds on success, written once so that the lemmas below can name
  it: the donor with its cross-link written, the getter function, the global, and the
  module body with getter and link in place. \<open>generate_found\<close> and \<open>generate_emitAfter\<close>
  prove that \<open>generate\<close> computes exactly these.
\<close>

definition linkStub :: "func \<Rightarrow> func" where
  "linkStub d = d\<lparr>fattrs := AList.update kCubinGetterAnnotation
                     (SymbolRefAttr (fname d @ kCubinGetterSuffix)) (fattrs d)\<rparr>"

definition cubinGetter :: "string \<Rightarrow> func" where
  "cubinGetter n = \<lparr>fname = n @ kCubinGetterSuffix, ftype = ([], [LLVMInt8Ptr]), fattrs = [],
                    fbody = [[GlobalStringPtr (n @ kCubinStorageSuffix),
                              LLVMReturn (GlobalStringPtr (n @ kCubinStorageSuffix))]]\<rparr>"

definition cubinStorage :: "string \<Rightarrow> string \<Rightarrow> global" where
  "cubinStorage n blob = \<lparr>gname = n @ kCubinStorageSuffix, gconstant = True, gvalue = blob\<rparr>"

fun emitAfter :: "string \<Rightarrow> operation list \<Rightarrow> operation list" where
  "emitAfter n [] = []"
| "emitAfter n (FuncOp f # ops) =
     (if fname f = n then FuncOp (linkStub f) # FuncOp (cubinGetter n) # ops
      else FuncOp f # emitAfter n ops)"
| "emitAfter n (GlobalOp g # ops) = GlobalOp g # emitAfter n ops"
| "emitAfter n (ModuleOp a b # ops) = ModuleOp a b # emitAfter n ops"

fun emitFuncs :: "string \<Rightarrow> func list \<Rightarrow> func list" where
  "emitFuncs n [] = []"
| "emitFuncs n (f # fs) =
     (if fname f = n then linkStub f # cubinGetter n # fs else f # emitFuncs n fs)"

definition funcNames :: "operation list \<Rightarrow> string set" where
  "funcNames ops = fname ` set (getOps_FuncOp ops)"

definition notFoundMsg :: string where
  "notFoundMsg = ''corresponding external function not found in parent module''"

subsection \<open>The source functions of a run\<close>

text \<open>
  \<open>cubinFuncs\<close> lists the functions of one nested module that the inner loop hands to
  \<open>generate\<close>, each with its blob; \<open>kernelSources\<close> does so for all flagged modules, in the
  order of the walk. \<open>generateAll\<close> calls \<open>generate\<close> on each entry of such a list.
\<close>

fun cubinFuncs :: "func list \<Rightarrow> (func \<times> string) list" where
  "cubinFuncs [] = []"
| "cubinFuncs (f # fs) =
     (case getAttrOfType_StringAttr (fattrs f) kCubinAnnotation of
        Some blob \<Rightarrow> (f, blob) # cubinFuncs fs
      | None \<Rightarrow> cubinFuncs fs)"

fun kernelSources :: "(attrs \<times> operation list) list \<Rightarrow> (func \<times> string) list" where
  "kernelSources [] = []"
| "kernelSources ((a, b) # ms) =
     (if getAttrOfType_UnitAttr a getKernelModuleAttrName
      then cubinFuncs (getOps_FuncOp b) @ kernelSources ms
      else kernelSources ms)"

fun generateAll :: "(func \<times> string) list \<Rightarrow> pass_state \<Rightarrow> pass_state" where
  "generateAll [] st = st"
| "generateAll ((f, blob) # srcs) st = generateAll srcs (generate f blob st)"

text \<open>
  The state of the pass when the walk, having visited the nested modules \<open>earlier\<close> and,
  in the module being visited, the functions \<open>before\<close>, reaches the next function.
\<close>

definition stateAt ::
  "(attrs \<times> operation list) list \<Rightarrow> func list \<Rightarrow> pass_state \<Rightarrow> pass_state" where
  "stateAt earlier before st = runOnFuncs before (runOnModules earlier 0 st)"

text \<open>What of the state \<open>generate\<close> reads and writes: everything but the nested modules.\<close>

definition symbols ::
  "pass_state \<Rightarrow> func list \<times> global list \<times> bool \<times> (string \<times> string) list" where
  "symbols st = (getOps_FuncOp (moduleBody st), getOps_GlobalOp (moduleBody st), failed st, diags st)"

definition unflagged :: "attrs \<times> operation list \<Rightarrow> bool" where
  "unflagged m = (\<not> getAttrOfType_UnitAttr (fst m) getKernelModuleAttrName)"

text \<open>The same module body with every nested module that lacks the flag emptied.\<close>

fun dropUnflaggedContents :: "operation \<Rightarrow> operation" where
  "dropUnflaggedContents (ModuleOp a b) =
     (if getAttrOfType_UnitAttr a getKernelModuleAttrName then ModuleOp a b else ModuleOp a [])"
| "dropUnflaggedContents (FuncOp f) = FuncOp f"
| "dropUnflaggedContents (GlobalOp g) = GlobalOp g"

subsection \<open>A donor linked to the getter that follows it\<close>

text \<open>
  \<open>crossLinked n ops\<close>: the first function named \<open>n\<close> carries the cross-link to
  \<open>n_cubin\<close>, the operation right after it is a getter for \<open>n\<close>, and no function before
  it is named \<open>n_cubin\<close>. \<open>linkedAt n ops\<close> asks the same of some function named \<open>n\<close>, not
  necessarily the first of that name.
\<close>

definition isGetterFor :: "string \<Rightarrow> func \<Rightarrow> bool" where
  "isGetterFor n a \<longleftrightarrow>
     fname a = n @ kCubinGetterSuffix \<and> ftype a = ([], [LLVMInt8Ptr])
     \<and> fbody a = [[GlobalStringPtr (n @ kCubinStorageSuffix),
                    LLVMReturn (GlobalStringPtr (n @ kCubinStorageSuffix))]]"



section \<open>Example modules\<close>

text \<open>
  \<open>exSimple\<close> is the scenario of the specification: a donor \<open>kern\<close> and one flagged nested
  module with the kernel \<open>kern\<close>. \<open>exMixed\<close> has a kernel without donor (\<open>k1\<close>) ahead of
  kernels with donors, a nested module without the flag, an empty flagged module and a
  flagged module whose only function carries no blob. In \<open>exCollision\<close> a function named
  \<open>kern_cubin\<close> exists before the pass runs, ahead of the donor; in \<open>exCollisionAfter\<close> it
  comes after the donor. In \<open>exBodied\<close> the function \<open>kern\<close> of the parent module has a
  body.
\<close>

definition exStub :: "string \<Rightarrow> func" where
  "exStub n = \<lparr>fname = n, ftype = ([OtherType ''f32''], []), fattrs = [], fbody = []\<rparr>"

definition exKernel :: "string \<Rightarrow> string \<Rightarrow> func" where
  "exKernel n blob = \<lparr>fname = n, ftype = ([OtherType ''f32''], []),
                       fattrs = [(''gpu.kernel'', UnitAttr), (kCubinAnnotation, StringAttr blob)],
                       fbody = [[OtherInst ''body'']]\<rparr>"

definition exKernelModule :: "func list \<Rightarrow> operation" where
  "exKernelModule fs = ModuleOp [(getKernelModuleAttrName, UnitAttr)] (map FuncOp fs)"

definition exSimple :: pass_state where
  "exSimple = \<lparr>moduleBody = [FuncOp (exStub ''main''), FuncOp (exStub ''kern''),
                             exKernelModule [exKernel ''kern'' ''ELF'']],
               failed = False, diags = []\<rparr>"

definition exMixed :: pass_state where
  "exMixed = \<lparr>moduleBody =
       [FuncOp (exStub ''k2''),
        exKernelModule [exKernel ''k1'' ''AA'', exKernel ''k2'' ''BB''],
        ModuleOp [] [FuncOp (exKernel ''host'' ''HH'')],
        FuncOp (exStub ''k3''),
        exKernelModule [],
        exKernelModule [exStub ''aux''],
        exKernelModule [exKernel ''k3'' ''CC'']],
     failed = False, diags = []\<rparr>"

definition exCollision :: pass_state where
  "exCollision = \<lparr>moduleBody = [FuncOp (exStub ''kern_cubin''), FuncOp (exStub ''kern''),
                                exKernelModule [exKernel ''kern'' ''ELF'']],
                  failed = False, diags = []\<rparr>"

definition exCollisionAfter :: pass_state where
  "exCollisionAfter = \<lparr>moduleBody = [FuncOp (exStub ''kern''), FuncOp (exStub ''kern_cubin''),
                                exKernelModule [exKernel ''kern'' ''ELF'']],
                  failed = False, diags = []\<rparr>"

definition exBodiedDonor :: func where
  "exBodiedDonor = \<lparr>fname = ''kern'', ftype = ([OtherType ''f32''], []), fattrs = [],
                    fbody = [[OtherInst ''launch'']]\<rparr>"

definition exBodied :: pass_state where
  "exBodied = \<lparr>moduleBody = [FuncOp (exStub ''main''), FuncOp exBodiedDonor,
                             exKernelModule [exKernel ''kern'' ''ELF'']],
               failed = False, diags = []\<rparr>"

lemmas ex_defs = exStub_def exKernel_def exKernelModule_def exSimple_def exMixed_def
  exCollision_def exCollisionAfter_def exBodiedDonor_def exBodied_def
  kCubinAnnotation_def kCubinGetterAnnotation_def kCubinGetterSuffix_def kCubinStorageSuffix_def
  getKernelModuleAttrName_def getAttrOfType_UnitAttr_def getAttrOfType_StringAttr_def

section \<open>Lemmas about lookup and \<open>generate\<close>\<close>

lemma funcNames_simps [simp]:
  "funcNames [] = {}"
  "funcNames (FuncOp f # ops) = insert (fname f) (funcNames ops)"
  "funcNames (GlobalOp g # ops) = funcNames ops"
  "funcNames (ModuleOp a b # ops) = funcNames ops"
  by (simp_all add: funcNames_def)

lemma lookup_Some_nth:
  "lookupSymbol_FuncOp ops n = Some (i, d) \<Longrightarrow> i < length ops \<and> ops ! i = FuncOp d \<and> fname d = n"
proof (induction ops n arbitrary: i rule: lookupSymbol_FuncOp.induct)
  case (2 f ops n)
  then show ?case by (cases i) (auto split: if_splits)
qed (auto)

lemma lookup_None_iff:
  "lookupSymbol_FuncOp ops n = None \<longleftrightarrow> n \<notin> funcNames ops"
  by (induction ops n rule: lookupSymbol_FuncOp.induct) auto

lemma lookup_append:
  "n \<notin> funcNames pre \<Longrightarrow> fname d = n \<Longrightarrow>
   lookupSymbol_FuncOp (pre @ FuncOp d # post) n = Some (length pre, d)"
  by (induction pre n rule: lookupSymbol_FuncOp.induct) auto

lemma updateFunc_at:
  "updateFunc (length pre) h (pre @ FuncOp f # post) = pre @ FuncOp (h f) # post"
  by (simp add: updateFunc_def)

lemma updateFunc_Cons:
  "updateFunc (Suc n) h (p # ops) = p # updateFunc n h ops"
  by (simp add: updateFunc_def split: operation.splits)

lemma updateFunc_at1:
  "updateFunc (Suc (length pre)) h (pre @ p # FuncOp f # post) = pre @ p # FuncOp (h f) # post"
  using updateFunc_at [of "pre @ [p]" h f post] by simp

lemma insertAfter_at:
  "insertAfter (length pre) x (pre @ p # post) = pre @ p # x # post"
  by (simp add: insertAfter_def)

lemma generate_found:
  assumes "lookupSymbol_FuncOp (moduleBody st) (fname kf) = Some (i, d)"
  shows "generate kf blob st = st\<lparr>moduleBody :=
           GlobalOp (cubinStorage (fname d) blob)
           # take i (moduleBody st) @ [FuncOp (linkStub d), FuncOp (cubinGetter (fname d))]
           @ drop (Suc i) (moduleBody st)\<rparr>"
proof -
  define pre where "pre = take i (moduleBody st)"
  define post where "post = drop (Suc i) (moduleBody st)"
  from lookup_Some_nth[OF assms] have i: "i < length (moduleBody st)" and d: "moduleBody st ! i = FuncOp d" by auto
  have split: "moduleBody st = pre @ FuncOp d # post"
    unfolding pre_def post_def using i d id_take_nth_drop by fastforce
  have len: "i = length pre" unfolding pre_def using i by simp
  show ?thesis
    unfolding generate_def assms option.case prod.case Let_def createGlobalString_def
      addEntryBlock_def appendInst_def setAttr_def linkStub_def cubinGetter_def cubinStorage_def
    unfolding pre_def[symmetric] post_def[symmetric] split len
    by (simp add: insertAfter_at updateFunc_at1 updateFunc_at updateFunc_Cons)
qed

lemma generate_not_found:
  assumes "lookupSymbol_FuncOp (moduleBody st) (fname kf) = None"
  shows "generate kf blob st = st\<lparr>diags := diags st @
            [(fname kf, ''corresponding external function not found in parent module'')],
            failed := True\<rparr>"
  by (simp add: generate_def assms emitError_def signalPassFailure_def)

lemma emitAfter_closed:
  "lookupSymbol_FuncOp ops n = Some (i, d) \<Longrightarrow>
   take i ops @ [FuncOp (linkStub d), FuncOp (cubinGetter n)] @ drop (Suc i) ops = emitAfter n ops"
proof (induction ops n arbitrary: i rule: lookupSymbol_FuncOp.induct)
  case (2 f ops n)
  then show ?case by (cases i) (auto split: if_splits)
qed (auto)

lemma generate_emitAfter:
  assumes "lookupSymbol_FuncOp (moduleBody st) (fname kf) = Some (i, d)"
  shows "generate kf blob st = st\<lparr>moduleBody :=
           GlobalOp (cubinStorage (fname kf) blob) # emitAfter (fname kf) (moduleBody st)\<rparr>"
proof -
  have n: "fname d = fname kf" using lookup_Some_nth[OF assms] by simp
  show ?thesis
    using generate_found[OF assms, of blob] emitAfter_closed[OF assms] by (simp add: n)
qed

lemma getOps_FuncOp_append [simp]:
  "getOps_FuncOp (xs @ ys) = getOps_FuncOp xs @ getOps_FuncOp ys"
  by (induction xs rule: getOps_FuncOp.induct) auto

lemma getOps_GlobalOp_append [simp]:
  "getOps_GlobalOp (xs @ ys) = getOps_GlobalOp xs @ getOps_GlobalOp ys"
  by (induction xs rule: getOps_GlobalOp.induct) auto

lemma getOps_ModuleOp_append [simp]:
  "getOps_ModuleOp (xs @ ys) = getOps_ModuleOp xs @ getOps_ModuleOp ys"
  by (induction xs rule: getOps_ModuleOp.induct) auto

lemma lookup_decompose:
  assumes "lookupSymbol_FuncOp ops n = Some (i, d)"
  shows "ops = take i ops @ FuncOp d # drop (Suc i) ops"
  using lookup_Some_nth[OF assms] id_take_nth_drop by fastforce

lemma getOps_ModuleOp_emitAfter [simp]: "getOps_ModuleOp (emitAfter n ops) = getOps_ModuleOp ops"
  by (induction n ops rule: emitAfter.induct) auto

lemma getOps_GlobalOp_emitAfter [simp]: "getOps_GlobalOp (emitAfter n ops) = getOps_GlobalOp ops"
  by (induction n ops rule: emitAfter.induct) auto

lemma getOps_FuncOp_emitAfter: "getOps_FuncOp (emitAfter n ops) = emitFuncs n (getOps_FuncOp ops)"
  by (induction n ops rule: emitAfter.induct) auto

lemma funcNames_emitAfter:
  "n \<in> funcNames ops \<Longrightarrow> funcNames (emitAfter n ops) = insert (n @ kCubinGetterSuffix) (funcNames ops)"
  by (induction n ops rule: emitAfter.induct) (auto simp: linkStub_def cubinGetter_def)

lemma generate_cases:
  "generate kf blob st =
     (if fname kf \<in> funcNames (moduleBody st)
      then st\<lparr>moduleBody := GlobalOp (cubinStorage (fname kf) blob) # emitAfter (fname kf) (moduleBody st)\<rparr>
      else st\<lparr>diags := diags st @ [(fname kf, notFoundMsg)], failed := True\<rparr>)"
proof (cases "lookupSymbol_FuncOp (moduleBody st) (fname kf)")
  case None
  then show ?thesis
    using generate_not_found[OF None, of blob] by (simp add: lookup_None_iff notFoundMsg_def)
next
  case (Some p)
  obtain i d where p: "p = (i, d)" by (cases p)
  have "fname kf \<in> funcNames (moduleBody st)"
    using Some lookup_None_iff[of "moduleBody st" "fname kf"] by auto
  then show ?thesis using generate_emitAfter[OF Some[unfolded p], of blob] by simp
qed

lemma modules_generate [simp]:
  "getOps_ModuleOp (moduleBody (generate kf blob st)) = getOps_ModuleOp (moduleBody st)"
  by (simp add: generate_cases)

lemma globals_generate:
  "getOps_GlobalOp (moduleBody (generate kf blob st)) =
     (if fname kf \<in> funcNames (moduleBody st)
      then cubinStorage (fname kf) blob # getOps_GlobalOp (moduleBody st)
      else getOps_GlobalOp (moduleBody st))"
  by (simp add: generate_cases)

lemma funcs_generate:
  "getOps_FuncOp (moduleBody (generate kf blob st)) =
     (if fname kf \<in> funcNames (moduleBody st)
      then emitFuncs (fname kf) (getOps_FuncOp (moduleBody st))
      else getOps_FuncOp (moduleBody st))"
  by (simp add: generate_cases getOps_FuncOp_emitAfter)

lemma funcNames_generate:
  "funcNames (moduleBody (generate kf blob st)) =
     (if fname kf \<in> funcNames (moduleBody st)
      then insert (fname kf @ kCubinGetterSuffix) (funcNames (moduleBody st))
      else funcNames (moduleBody st))"
  by (simp add: generate_cases funcNames_emitAfter)

lemma diags_generate:
  "diags (generate kf blob st) =
     (if fname kf \<in> funcNames (moduleBody st) then diags st
      else diags st @ [(fname kf, notFoundMsg)])"
  by (simp add: generate_cases)

lemma failed_generate_eq:
  "failed (generate kf blob st) = (failed st \<or> fname kf \<notin> funcNames (moduleBody st))"
  by (simp add: generate_cases)

lemma runOnFuncs_generateAll: "runOnFuncs fs st = generateAll (cubinFuncs fs) st"
  by (induction fs arbitrary: st) (auto split: option.splits)

lemma generateAll_append: "generateAll (xs @ ys) st = generateAll ys (generateAll xs st)"
  by (induction xs arbitrary: st) auto

lemma modules_generateAll [simp]:
  "getOps_ModuleOp (moduleBody (generateAll srcs st)) = getOps_ModuleOp (moduleBody st)"
  by (induction srcs st rule: generateAll.induct) auto

lemma getOps_FuncOp_eraseModule [simp]: "getOps_FuncOp (eraseModule k ops) = getOps_FuncOp ops"
  by (induction k ops rule: eraseModule.induct) (auto split: nat.splits)

lemma getOps_GlobalOp_eraseModule [simp]: "getOps_GlobalOp (eraseModule k ops) = getOps_GlobalOp ops"
  by (induction k ops rule: eraseModule.induct) (auto split: nat.splits)

lemma funcNames_eraseModule [simp]: "funcNames (eraseModule k ops) = funcNames ops"
  by (simp add: funcNames_def)

lemma getOps_ModuleOp_eraseModule:
  "getOps_ModuleOp (eraseModule k ops) = take k (getOps_ModuleOp ops) @ drop (Suc k) (getOps_ModuleOp ops)"
  by (induction k ops rule: eraseModule.induct) (auto split: nat.splits)

lemma unflagged_Pair [simp]:
  "unflagged (a, b) = (\<not> getAttrOfType_UnitAttr a getKernelModuleAttrName)"
  by (simp add: unflagged_def)

lemma modules_runOnModules:
  "getOps_ModuleOp (moduleBody st) = kept @ modules \<Longrightarrow> length kept = k \<Longrightarrow>
   getOps_ModuleOp (moduleBody (runOnModules modules k st)) = kept @ filter unflagged modules"
proof (induction modules k st arbitrary: kept rule: runOnModules.induct)
  case (1 k st)
  then show ?case by simp
next
  case (2 a b modules k st)
  show ?case
  proof (cases "getAttrOfType_UnitAttr a getKernelModuleAttrName")
    case False
    have "getOps_ModuleOp (moduleBody (runOnModules modules (Suc k) st))
            = (kept @ [(a, b)]) @ filter unflagged modules"
      using 2 False by (intro "2.IH"(1)) auto
    then show ?thesis using False by simp
  next
    case True
    define st1 where "st1 = runOnFuncs (getOps_FuncOp b) st"
    define st2 where "st2 = st1\<lparr>moduleBody := eraseModule k (moduleBody st1)\<rparr>"
    have m1: "getOps_ModuleOp (moduleBody st1) = kept @ (a, b) # modules"
      unfolding st1_def runOnFuncs_generateAll using "2.prems" by simp
    have m2: "getOps_ModuleOp (moduleBody st2) = kept @ modules"
      unfolding st2_def using m1 "2.prems"(2) by (simp add: getOps_ModuleOp_eraseModule)
    have "getOps_ModuleOp (moduleBody (runOnModules modules k st2)) = kept @ filter unflagged modules"
      using True m2 "2.prems"(2) by (intro "2.IH"(2)[OF _ st1_def st2_def]) auto
    then show ?thesis using True by (simp add: Let_def st1_def st2_def)
  qed
qed

lemma modules_runOnModule:
  "getOps_ModuleOp (moduleBody (runOnModule st)) = filter unflagged (getOps_ModuleOp (moduleBody st))"
  using modules_runOnModules[of st "[]" "getOps_ModuleOp (moduleBody st)" 0]
  by (simp add: runOnModule_def)

lemma symbols_generate_cong:
  assumes "symbols st = symbols st'"
  shows "symbols (generate f blob st) = symbols (generate f blob st')"
proof -
  have n: "funcNames (moduleBody st) = funcNames (moduleBody st')"
    using assms by (simp add: symbols_def funcNames_def)
  show ?thesis
    using assms n
    by (simp add: symbols_def funcs_generate globals_generate diags_generate failed_generate_eq)
qed

lemma symbols_generateAll_cong:
  "symbols st = symbols st' \<Longrightarrow> symbols (generateAll srcs st) = symbols (generateAll srcs st')"
proof (induction srcs st arbitrary: st' rule: generateAll.induct)
  case (1 st)
  then show ?case by simp
next
  case (2 f blob srcs st)
  then show ?case using symbols_generate_cong[OF "2.prems"] by simp
qed

lemma symbols_erase [simp]:
  "symbols (st\<lparr>moduleBody := eraseModule k (moduleBody st)\<rparr>) = symbols st"
  by (simp add: symbols_def)

lemma symbols_runOnModules:
  "symbols (runOnModules modules k st) = symbols (generateAll (kernelSources modules) st)"
proof (induction modules k st rule: runOnModules.induct)
  case (1 k st)
  then show ?case by simp
next
  case (2 a b modules k st)
  show ?case
  proof (cases "getAttrOfType_UnitAttr a getKernelModuleAttrName")
    case False
    then show ?thesis using "2.IH"(1) by simp
  next
    case True
    define st1 where "st1 = runOnFuncs (getOps_FuncOp b) st"
    define st2 where "st2 = st1\<lparr>moduleBody := eraseModule k (moduleBody st1)\<rparr>"
    have "symbols (runOnModules modules k st2) = symbols (generateAll (kernelSources modules) st2)"
      using True by (intro "2.IH"(2)[OF _ st1_def st2_def]) simp
    also have "\<dots> = symbols (generateAll (kernelSources modules) st1)"
      by (rule symbols_generateAll_cong) (simp add: st2_def)
    also have "\<dots> = symbols (generateAll (kernelSources ((a, b) # modules)) st)"
      using True by (simp add: st1_def runOnFuncs_generateAll generateAll_append)
    finally show ?thesis using True by (simp add: Let_def st1_def st2_def)
  qed
qed

lemma symbols_runOnModule:
  "symbols (runOnModule st) = symbols (generateAll (kernelSources (getOps_ModuleOp (moduleBody st))) st)"
  by (simp add: runOnModule_def symbols_runOnModules)

lemma count_generateAll:
  "length (diags (generateAll srcs st)) + length (getOps_GlobalOp (moduleBody (generateAll srcs st)))
     = length (diags st) + length (getOps_GlobalOp (moduleBody st)) + length srcs"
  by (induction srcs st rule: generateAll.induct) (auto simp: diags_generate globals_generate)

lemma funcNames_generateAll_mono:
  "n \<in> funcNames (moduleBody st) \<Longrightarrow> n \<in> funcNames (moduleBody (generateAll srcs st))"
  by (induction srcs st rule: generateAll.induct) (auto simp: funcNames_generate)

lemma globals_generateAll_mono:
  "g \<in> set (getOps_GlobalOp (moduleBody st)) \<Longrightarrow>
   g \<in> set (getOps_GlobalOp (moduleBody (generateAll srcs st)))"
  by (induction srcs st rule: generateAll.induct) (auto simp: globals_generate)

lemma diags_generateAll_mono:
  "e \<in> set (diags st) \<Longrightarrow> e \<in> set (diags (generateAll srcs st))"
  by (induction srcs st rule: generateAll.induct) (auto simp: diags_generate)

lemma global_of_resolvable_source:
  "(f, blob) \<in> set srcs \<Longrightarrow> fname f \<in> funcNames (moduleBody st) \<Longrightarrow>
   cubinStorage (fname f) blob \<in> set (getOps_GlobalOp (moduleBody (generateAll srcs st)))"
proof (induction srcs st rule: generateAll.induct)
  case (1 st)
  then show ?case by simp
next
  case (2 g b srcs st)
  show ?case
  proof (cases "(f, blob) = (g, b)")
    case True
    then have "cubinStorage (fname f) blob \<in> set (getOps_GlobalOp (moduleBody (generate g b st)))"
      using "2.prems"(2) by (simp add: globals_generate)
    then show ?thesis by (simp add: globals_generateAll_mono)
  next
    case False
    have "fname f \<in> funcNames (moduleBody (generate g b st))"
      using "2.prems"(2) by (simp add: funcNames_generate)
    then show ?thesis using "2.IH" "2.prems"(1) False by auto
  qed
qed

lemma global_of_unreported_source:
  "(f, blob) \<in> set srcs \<Longrightarrow> fname f \<notin> fst ` set (diags (generateAll srcs st)) \<Longrightarrow>
   cubinStorage (fname f) blob \<in> set (getOps_GlobalOp (moduleBody (generateAll srcs st)))"
proof (induction srcs st rule: generateAll.induct)
  case (1 st)
  then show ?case by simp
next
  case (2 g b srcs st)
  show ?case
  proof (cases "(f, blob) = (g, b)")
    case True
    have "fname g \<in> funcNames (moduleBody st)"
    proof (rule ccontr)
      assume "fname g \<notin> funcNames (moduleBody st)"
      then have "(fname g, notFoundMsg) \<in> set (diags (generate g b st))"
        by (simp add: diags_generate)
      then have "(fname g, notFoundMsg) \<in> set (diags (generateAll srcs (generate g b st)))"
        by (rule diags_generateAll_mono)
      then have "fname g \<in> fst ` set (diags (generateAll ((g, b) # srcs) st))"
        by (simp add: image_iff) force
      then show False using "2.prems"(2) True by simp
    qed
    then have "cubinStorage (fname f) blob \<in> set (getOps_GlobalOp (moduleBody (generate g b st)))"
      using True by (simp add: globals_generate)
    then show ?thesis by (simp add: globals_generateAll_mono)
  next
    case False
    then show ?thesis using "2.IH" "2.prems" by auto
  qed
qed

lemma cubinFuncs_iff:
  "(f, blob) \<in> set (cubinFuncs fs) \<longleftrightarrow>
     f \<in> set fs \<and> getAttrOfType_StringAttr (fattrs f) kCubinAnnotation = Some blob"
  by (induction fs) (auto split: option.splits)

lemma kernelSources_iff:
  "(f, blob) \<in> set (kernelSources ms) \<longleftrightarrow>
     (\<exists>a b. (a, b) \<in> set ms \<and> getAttrOfType_UnitAttr a getKernelModuleAttrName
            \<and> f \<in> set (getOps_FuncOp b)
            \<and> getAttrOfType_StringAttr (fattrs f) kCubinAnnotation = Some blob)"
  by (induction ms rule: kernelSources.induct) (auto simp: cubinFuncs_iff)

lemma getOps_FuncOp_dropUnflagged [simp]:
  "getOps_FuncOp (map dropUnflaggedContents ops) = getOps_FuncOp ops"
  by (induction ops rule: getOps_FuncOp.induct) auto

lemma getOps_GlobalOp_dropUnflagged [simp]:
  "getOps_GlobalOp (map dropUnflaggedContents ops) = getOps_GlobalOp ops"
  by (induction ops rule: getOps_GlobalOp.induct) auto

lemma kernelSources_dropUnflagged [simp]:
  "kernelSources (getOps_ModuleOp (map dropUnflaggedContents ops)) = kernelSources (getOps_ModuleOp ops)"
  by (induction ops rule: getOps_ModuleOp.induct) auto

lemma getter_suffix_nonempty [simp]: "kCubinGetterSuffix \<noteq> []"
  by (simp add: kCubinGetterSuffix_def)

lemma isGetterFor_cubinGetter [simp]: "isGetterFor n (cubinGetter n)"
  by (simp add: isGetterFor_def cubinGetter_def)

lemma isGetterFor_linkStub [simp]: "isGetterFor n (linkStub a) = isGetterFor n a"
  by (simp add: isGetterFor_def linkStub_def)

lemma fname_linkStub [simp]: "fname (linkStub d) = fname d"
  by (simp add: linkStub_def)

lemma fname_cubinGetter [simp]: "fname (cubinGetter n) = n @ kCubinGetterSuffix"
  by (simp add: cubinGetter_def)

lemma link_linkStub [simp]:
  "map_of (fattrs (linkStub d)) kCubinGetterAnnotation
     = Some (SymbolRefAttr (fname d @ kCubinGetterSuffix))"
  by (simp add: linkStub_def update_conv)






lemma cubinFuncs_append: "cubinFuncs (xs @ ys) = cubinFuncs xs @ cubinFuncs ys"
  by (induction xs) (auto split: option.splits)

lemma runOnFuncs_append: "runOnFuncs (xs @ ys) st = runOnFuncs ys (runOnFuncs xs st)"
  by (simp add: runOnFuncs_generateAll cubinFuncs_append generateAll_append)

lemma runOnModules_append:
  "runOnModules (xs @ ys) k st
     = runOnModules ys (k + length (filter unflagged xs)) (runOnModules xs k st)"
proof (induction xs k st rule: runOnModules.induct)
  case (1 k st)
  then show ?case by simp
next
  case (2 a b modules k st)
  then show ?case by (simp add: Let_def)
qed

lemma runOnModule_reaches:
  assumes "getOps_ModuleOp (moduleBody st) = earlier @ (a, b) # modules"
    and "getAttrOfType_UnitAttr a getKernelModuleAttrName"
    and "getOps_FuncOp b = before @ f # funcs"
    and "getAttrOfType_StringAttr (fattrs f) kCubinAnnotation = Some blob"
  shows "\<exists>k. runOnModule st
           = runOnModules modules k
               ((runOnFuncs funcs (generate f blob (stateAt earlier before st)))
                  \<lparr>moduleBody := eraseModule k
                     (moduleBody (runOnFuncs funcs (generate f blob (stateAt earlier before st))))\<rparr>)"
proof -
  let ?k = "length (filter unflagged earlier)"
  let ?stE = "runOnModules earlier 0 st"
  have "runOnModule st = runOnModules ((a, b) # modules) ?k ?stE"
    by (simp add: runOnModule_def assms(1) runOnModules_append)
  also have "runOnFuncs (getOps_FuncOp b) ?stE
               = runOnFuncs funcs (generate f blob (stateAt earlier before st))"
    unfolding assms(3) runOnFuncs_append stateAt_def using assms(4) by simp
  then have "runOnModules ((a, b) # modules) ?k ?stE
      = runOnModules modules ?k
               ((runOnFuncs funcs (generate f blob (stateAt earlier before st)))
                  \<lparr>moduleBody := eraseModule ?k
                     (moduleBody (runOnFuncs funcs (generate f blob (stateAt earlier before st))))\<rparr>)"
    using assms(2) by (simp add: Let_def)
  finally show ?thesis by blast
qed

lemma symbols_rest:
  "symbols (runOnModules modules k
               ((runOnFuncs funcs st)\<lparr>moduleBody := eraseModule k (moduleBody (runOnFuncs funcs st))\<rparr>))
     = symbols (generateAll (cubinFuncs funcs @ kernelSources modules) st)"
proof -
  have "symbols (runOnModules modules k
               ((runOnFuncs funcs st)\<lparr>moduleBody := eraseModule k (moduleBody (runOnFuncs funcs st))\<rparr>))
        = symbols (generateAll (kernelSources modules)
               ((runOnFuncs funcs st)\<lparr>moduleBody := eraseModule k (moduleBody (runOnFuncs funcs st))\<rparr>))"
    by (rule symbols_runOnModules)
  also have "\<dots> = symbols (generateAll (kernelSources modules) (runOnFuncs funcs st))"
    by (rule symbols_generateAll_cong) simp
  finally show ?thesis by (simp add: runOnFuncs_generateAll generateAll_append)
qed

lemma failed_generateAll_mono:
  "failed st \<Longrightarrow> failed (generateAll srcs st)"
  by (induction srcs st rule: generateAll.induct) (auto simp: failed_generate_eq)

lemma funcNames_stateAt_mono:
  "n \<in> funcNames (moduleBody st) \<Longrightarrow> n \<in> funcNames (moduleBody (stateAt earlier before st))"
proof -
  assume n: "n \<in> funcNames (moduleBody st)"
  have "symbols (runOnModules earlier 0 st) = symbols (generateAll (kernelSources earlier) st)"
    by (rule symbols_runOnModules)
  then have "funcNames (moduleBody (runOnModules earlier 0 st))
               = funcNames (moduleBody (generateAll (kernelSources earlier) st))"
    by (simp add: symbols_def funcNames_def)
  then have "n \<in> funcNames (moduleBody (runOnModules earlier 0 st))"
    using funcNames_generateAll_mono[OF n] by simp
  then show ?thesis
    unfolding stateAt_def runOnFuncs_generateAll by (rule funcNames_generateAll_mono)
qed










section \<open>The claims\<close>

text \<open>
  What the pass emits for one source function is stated for one call of \<open>generate\<close>, in
  any state of the pass: \<open>runOnModule\<close> changes the functions, the globals, the failure
  flag and the diagnostics through such calls only (\<open>symbols_runOnModule\<close>), and
  otherwise only erases nested modules. What holds after the pass is stated for
  \<open>runOnModule\<close>.
\<close>

subsection \<open>C1: an unresolved donor\<close>

text \<open>
  Claim C1, as amended. Let the walk reach, in a flagged nested module, a function that
  carries the blob attribute while the parent module has no function of its name. Then
  the pass records an error under the function's name and signals failure, and both are
  still there when the pass returns. The pass does not abort: from the state in which
  only the diagnostics and the failure flag have changed, every blob-carrying function
  that follows in the same module or in a later flagged module is handed to \<open>generate\<close>;
  each of them whose name is borne by a function of the parent module gets its global;
  and no flagged module is left.
\<close>

theorem C1_failure_signalled_pass_continues:
  assumes "getOps_ModuleOp (moduleBody st) = earlier @ (a, b) # modules"
    and "getAttrOfType_UnitAttr a getKernelModuleAttrName"
    and "getOps_FuncOp b = before @ kernelFunc # funcs"
    and "getAttrOfType_StringAttr (fattrs kernelFunc) kCubinAnnotation = Some blob"
    and "fname kernelFunc \<notin> fname ` set (getOps_FuncOp (moduleBody (stateAt earlier before st)))"
  shows "failed (runOnModule st)
       \<and> (fname kernelFunc, ''corresponding external function not found in parent module'')
           \<in> set (diags (runOnModule st))
       \<and> symbols (runOnModule st)
           = symbols (generateAll (cubinFuncs funcs @ kernelSources modules)
               ((stateAt earlier before st)
                  \<lparr>diags := diags (stateAt earlier before st) @
                     [(fname kernelFunc,
                       ''corresponding external function not found in parent module'')],
                   failed := True\<rparr>))
       \<and> (\<forall>(f, c) \<in> set (cubinFuncs funcs @ kernelSources modules).
             fname f \<in> fname ` set (getOps_FuncOp (moduleBody st)) \<longrightarrow>
             \<lparr>gname = fname f @ ''_cubin_cst'', gconstant = True, gvalue = c\<rparr>
               \<in> set (getOps_GlobalOp (moduleBody (runOnModule st))))
       \<and> filter (\<lambda>(a, b). getAttrOfType_UnitAttr a getKernelModuleAttrName)
            (getOps_ModuleOp (moduleBody (runOnModule st))) = []"
proof -
  let ?stR = "stateAt earlier before st"
  let ?st' = "?stR\<lparr>diags := diags ?stR @
                     [(fname kernelFunc,
                       ''corresponding external function not found in parent module'')],
                   failed := True\<rparr>"
  let ?later = "cubinFuncs funcs @ kernelSources modules"
  have n: "lookupSymbol_FuncOp (moduleBody ?stR) (fname kernelFunc) = None"
    using assms(5) by (simp add: lookup_None_iff funcNames_def)
  have g: "generate kernelFunc blob ?stR = ?st'"
    by (rule generate_not_found[OF n])
  obtain k where r: "runOnModule st
           = runOnModules modules k
               ((runOnFuncs funcs ?st')
                  \<lparr>moduleBody := eraseModule k (moduleBody (runOnFuncs funcs ?st'))\<rparr>)"
    using runOnModule_reaches[OF assms(1-4)] unfolding g by blast
  have s: "symbols (runOnModule st) = symbols (generateAll ?later ?st')"
    unfolding r by (rule symbols_rest)
  have f: "failed (runOnModule st)"
  proof -
    have "failed (generateAll ?later ?st')" by (rule failed_generateAll_mono) simp
    then show ?thesis using s by (simp add: symbols_def)
  qed
  have d: "(fname kernelFunc, ''corresponding external function not found in parent module'')
           \<in> set (diags (runOnModule st))"
  proof -
    have "(fname kernelFunc, ''corresponding external function not found in parent module'')
            \<in> set (diags (generateAll ?later ?st'))"
      by (rule diags_generateAll_mono) simp
    then show ?thesis using s by (simp add: symbols_def)
  qed
  have p: "\<lparr>gname = fname f @ ''_cubin_cst'', gconstant = True, gvalue = c\<rparr>
               \<in> set (getOps_GlobalOp (moduleBody (runOnModule st)))"
    if "(f, c) \<in> set ?later" "fname f \<in> fname ` set (getOps_FuncOp (moduleBody st))" for f c
  proof -
    have "fname f \<in> funcNames (moduleBody st)" using that(2) by (simp add: funcNames_def)
    then have "fname f \<in> funcNames (moduleBody ?st')"
      using funcNames_stateAt_mono[of "fname f" st earlier before] by simp
    then have "cubinStorage (fname f) c \<in> set (getOps_GlobalOp (moduleBody (generateAll ?later ?st')))"
      by (rule global_of_resolvable_source[OF that(1)])
    then show ?thesis using s by (simp add: symbols_def cubinStorage_def kCubinStorageSuffix_def)
  qed
  have e: "filter (\<lambda>(a, b). getAttrOfType_UnitAttr a getKernelModuleAttrName)
            (getOps_ModuleOp (moduleBody (runOnModule st))) = []"
    by (auto simp: modules_runOnModule filter_empty_conv)
  show ?thesis using f d s p e by blast
qed

text \<open>
  Witness for C1: in \<open>exMixed\<close> the kernel \<open>k1\<close> has no donor; \<open>k2\<close> follows it in the same
  nested module and \<open>k3\<close> is in a later one.
\<close>

theorem C1_witness:
  "failed (runOnModule exMixed)
   \<and> (fname (exKernel ''k1'' ''AA''), ''corresponding external function not found in parent module'')
       \<in> set (diags (runOnModule exMixed))
   \<and> \<lparr>gname = ''k2_cubin_cst'', gconstant = True, gvalue = ''BB''\<rparr>
       \<in> set (getOps_GlobalOp (moduleBody (runOnModule exMixed)))
   \<and> \<lparr>gname = ''k3_cubin_cst'', gconstant = True, gvalue = ''CC''\<rparr>
       \<in> set (getOps_GlobalOp (moduleBody (runOnModule exMixed)))"
proof -
  let ?flag = "[(getKernelModuleAttrName, UnitAttr)]"
  let ?modules = "[([], [FuncOp (exKernel ''host'' ''HH'')]), (?flag, []),
                   (?flag, [FuncOp (exStub ''aux'')]), (?flag, [FuncOp (exKernel ''k3'' ''CC'')])]"
  have h1: "getOps_ModuleOp (moduleBody exMixed)
              = [] @ (?flag, [FuncOp (exKernel ''k1'' ''AA''), FuncOp (exKernel ''k2'' ''BB'')])
                # ?modules"
    by (simp add: exMixed_def exKernelModule_def)
  have h2: "getAttrOfType_UnitAttr ?flag getKernelModuleAttrName"
    by (simp add: getAttrOfType_UnitAttr_def)
  have h3: "getOps_FuncOp [FuncOp (exKernel ''k1'' ''AA''), FuncOp (exKernel ''k2'' ''BB'')]
              = [] @ exKernel ''k1'' ''AA'' # [exKernel ''k2'' ''BB'']"
    by simp
  have h4: "getAttrOfType_StringAttr (fattrs (exKernel ''k1'' ''AA'')) kCubinAnnotation = Some ''AA''"
    by (simp add: ex_defs)
  have h5: "fname (exKernel ''k1'' ''AA'')
              \<notin> fname ` set (getOps_FuncOp (moduleBody (stateAt [] [] exMixed)))"
    by (simp add: stateAt_def ex_defs)
  have l: "cubinFuncs [exKernel ''k2'' ''BB''] @ kernelSources ?modules
             = [(exKernel ''k2'' ''BB'', ''BB''), (exKernel ''k3'' ''CC'', ''CC'')]"
    by (simp add: ex_defs)
  have n: "fname ` set (getOps_FuncOp (moduleBody exMixed)) = {''k2'', ''k3''}"
    by (simp add: ex_defs)
  show ?thesis
    using C1_failure_signalled_pass_continues[OF h1 h2 h3 h4 h5]
    unfolding l n by (simp add: exKernel_def)
qed

text \<open>
  Counterexample to C1 as stated: on \<open>exMixed\<close> the unresolved donor of \<open>k1\<close> is reported
  and the failure is signalled, and yet \<open>k2\<close>, which follows \<open>k1\<close> in the same nested
  module, and \<open>k3\<close>, in a later one, have been processed: their donors are linked and
  their getters are in the parent module after the pass.
\<close>

theorem C1_counterexample:
  "diags (runOnModule exMixed)
     = [(''k1'', ''corresponding external function not found in parent module'')]
   \<and> failed (runOnModule exMixed)
   \<and> getOps_FuncOp (moduleBody (runOnModule exMixed))
     = [\<lparr>fname = ''k2'', ftype = ([OtherType ''f32''], []),
         fattrs = [(''nvvm.cubingetter'', SymbolRefAttr ''k2_cubin'')], fbody = []\<rparr>,
        \<lparr>fname = ''k2_cubin'', ftype = ([], [LLVMInt8Ptr]), fattrs = [],
         fbody = [[GlobalStringPtr ''k2_cubin_cst'',
                   LLVMReturn (GlobalStringPtr ''k2_cubin_cst'')]]\<rparr>,
        \<lparr>fname = ''k3'', ftype = ([OtherType ''f32''], []),
         fattrs = [(''nvvm.cubingetter'', SymbolRefAttr ''k3_cubin'')], fbody = []\<rparr>,
        \<lparr>fname = ''k3_cubin'', ftype = ([], [LLVMInt8Ptr]), fattrs = [],
         fbody = [[GlobalStringPtr ''k3_cubin_cst'',
                   LLVMReturn (GlobalStringPtr ''k3_cubin_cst'')]]\<rparr>]"
  by code_simp

subsection \<open>C2: names by fixed suffix\<close>

text \<open>
  Claim C2. When \<open>generate\<close> finds the donor, the names of the globals of the parent
  module afterwards are the names there were and, somewhere among them, the donor's
  name followed by \<open>_cubin_cst\<close>; the names of its functions are those there were, with the donor's name followed
  by \<open>_cubin\<close> put in right after the donor. Both new names are built from the donor's
  name alone.
\<close>

theorem C2_names_by_fixed_suffix:
  assumes "lookupSymbol_FuncOp (moduleBody st) (fname kernelFunc) = Some (i, stubFunc)"
  shows "(\<exists>gs1 gs2. getOps_GlobalOp (moduleBody st) = gs1 @ gs2
           \<and> map gname (getOps_GlobalOp (moduleBody (generate kernelFunc blob st)))
               = map gname gs1 @ (fname stubFunc @ ''_cubin_cst'') # map gname gs2)
       \<and> map fname (getOps_FuncOp (moduleBody (generate kernelFunc blob st)))
           = map fname (getOps_FuncOp (take (Suc i) (moduleBody st)))
             @ (fname stubFunc @ ''_cubin'') # map fname (getOps_FuncOp (drop (Suc i) (moduleBody st)))"
proof -
  let ?ops = "moduleBody st"
  have dec: "?ops = take i ?ops @ FuncOp stubFunc # drop (Suc i) ?ops"
    by (rule lookup_decompose[OF assms])
  have tk: "take (Suc i) ?ops = take i ?ops @ [FuncOp stubFunc]"
    using lookup_Some_nth[OF assms] by (simp add: take_Suc_conv_app_nth)
  have g: "getOps_GlobalOp (take i ?ops) @ getOps_GlobalOp (drop (Suc i) ?ops) = getOps_GlobalOp ?ops"
    using arg_cong[OF dec, of getOps_GlobalOp] by simp
  have gl: "map gname (getOps_GlobalOp (moduleBody (generate kernelFunc blob st)))
              = map gname [] @ (fname stubFunc @ ''_cubin_cst'')
                # map gname (getOps_GlobalOp (moduleBody st))"
    unfolding generate_found[OF assms]
    by (simp add: g cubinStorage_def kCubinStorageSuffix_def)
  have fl: "map fname (getOps_FuncOp (moduleBody (generate kernelFunc blob st)))
           = map fname (getOps_FuncOp (take (Suc i) (moduleBody st)))
             @ (fname stubFunc @ ''_cubin'') # map fname (getOps_FuncOp (drop (Suc i) (moduleBody st)))"
    unfolding generate_found[OF assms] tk
    by (simp add: cubinGetter_def linkStub_def kCubinGetterSuffix_def)
  have "\<exists>gs1 gs2. getOps_GlobalOp (moduleBody st) = gs1 @ gs2
           \<and> map gname (getOps_GlobalOp (moduleBody (generate kernelFunc blob st)))
               = map gname gs1 @ (fname stubFunc @ ''_cubin_cst'') # map gname gs2"
    using gl by (intro exI[of _ "[]"] exI[of _ "getOps_GlobalOp (moduleBody st)"]) simp
  then show ?thesis using fl by blast
qed

text \<open>Witness for C2: \<open>generate\<close> on the kernel of \<open>exSimple\<close>, whose donor is at position 1.\<close>

theorem C2_witness:
  "(\<exists>gs1 gs2. getOps_GlobalOp (moduleBody exSimple) = gs1 @ gs2
           \<and> map gname (getOps_GlobalOp (moduleBody (generate (exKernel ''kern'' ''ELF'') ''ELF'' exSimple)))
               = map gname gs1 @ (fname (exStub ''kern'') @ ''_cubin_cst'') # map gname gs2)
       \<and> map fname (getOps_FuncOp (moduleBody (generate (exKernel ''kern'' ''ELF'') ''ELF'' exSimple)))
           = map fname (getOps_FuncOp (take (Suc 1) (moduleBody exSimple)))
             @ (fname (exStub ''kern'') @ ''_cubin'')
               # map fname (getOps_FuncOp (drop (Suc 1) (moduleBody exSimple)))"
proof -
  have h: "lookupSymbol_FuncOp (moduleBody exSimple) (fname (exKernel ''kern'' ''ELF''))
             = Some (1, exStub ''kern'')"
    by (simp add: ex_defs)
  show ?thesis
    by (rule C2_names_by_fixed_suffix[OF h])
qed

subsection \<open>C3: the payload reaches the global unchanged\<close>

text \<open>
  Claim C3. Take a function of a flagged nested module that carries the blob attribute
  with value \<open>blob\<close> and is transformed: a function of its name is in the parent module
  before the pass, or the pass reports no error under its name. After the pass the parent
  module has a constant global named after it whose value is \<open>blob\<close>, byte for byte.
\<close>

theorem C3_payload_round_trip:
  assumes "(a, b) \<in> set (getOps_ModuleOp (moduleBody st))"
    and "getAttrOfType_UnitAttr a getKernelModuleAttrName"
    and "func \<in> set (getOps_FuncOp b)"
    and "getAttrOfType_StringAttr (fattrs func) kCubinAnnotation = Some blob"
    and "fname func \<in> fname ` set (getOps_FuncOp (moduleBody st))
         \<or> fname func \<notin> fst ` set (diags (runOnModule st))"
  shows "\<lparr>gname = fname func @ ''_cubin_cst'', gconstant = True, gvalue = blob\<rparr>
           \<in> set (getOps_GlobalOp (moduleBody (runOnModule st)))"
proof -
  let ?srcs = "kernelSources (getOps_ModuleOp (moduleBody st))"
  have src: "(func, blob) \<in> set ?srcs"
    using assms(1-4) by (auto simp: kernelSources_iff)
  have sym: "symbols (runOnModule st) = symbols (generateAll ?srcs st)"
    by (rule symbols_runOnModule)
  have g: "getOps_GlobalOp (moduleBody (runOnModule st))
             = getOps_GlobalOp (moduleBody (generateAll ?srcs st))"
    and d: "diags (runOnModule st) = diags (generateAll ?srcs st)"
    using sym by (simp_all add: symbols_def)
  have "cubinStorage (fname func) blob \<in> set (getOps_GlobalOp (moduleBody (generateAll ?srcs st)))"
    using assms(5)
  proof
    assume "fname func \<in> fname ` set (getOps_FuncOp (moduleBody st))"
    then show ?thesis using global_of_resolvable_source[OF src] by (simp add: funcNames_def)
  next
    assume "fname func \<notin> fst ` set (diags (runOnModule st))"
    then show ?thesis using global_of_unreported_source[OF src] by (simp add: d)
  qed
  then show ?thesis by (simp add: g cubinStorage_def kCubinStorageSuffix_def)
qed

text \<open>
  Witness for C3: the kernel \<open>k2\<close> of \<open>exMixed\<close>, processed after the failure for \<open>k1\<close>.
\<close>

theorem C3_witness:
  "\<lparr>gname = fname (exKernel ''k2'' ''BB'') @ ''_cubin_cst'', gconstant = True, gvalue = ''BB''\<rparr>
           \<in> set (getOps_GlobalOp (moduleBody (runOnModule exMixed)))"
proof -
  have h1: "([(getKernelModuleAttrName, UnitAttr)],
             [FuncOp (exKernel ''k1'' ''AA''), FuncOp (exKernel ''k2'' ''BB'')])
              \<in> set (getOps_ModuleOp (moduleBody exMixed))"
    by (simp add: exMixed_def exKernelModule_def)
  have h2: "getAttrOfType_UnitAttr [(getKernelModuleAttrName, UnitAttr)] getKernelModuleAttrName"
    by (simp add: getAttrOfType_UnitAttr_def)
  have h3: "exKernel ''k2'' ''BB''
              \<in> set (getOps_FuncOp [FuncOp (exKernel ''k1'' ''AA''), FuncOp (exKernel ''k2'' ''BB'')])"
    by simp
  have h4: "getAttrOfType_StringAttr (fattrs (exKernel ''k2'' ''BB'')) kCubinAnnotation = Some ''BB''"
    by (simp add: ex_defs)
  have h5: "fname (exKernel ''k2'' ''BB'') \<in> fname ` set (getOps_FuncOp (moduleBody exMixed))
         \<or> fname (exKernel ''k2'' ''BB'') \<notin> fst ` set (diags (runOnModule exMixed))"
    by (simp add: ex_defs)
  show ?thesis
    by (rule C3_payload_round_trip[OF h1 h2 h3 h4 h5])
qed

subsection \<open>C4: the cross-link\<close>




subsection \<open>C5: shape and place of the getter\<close>

text \<open>
  Claim C5. When \<open>generate\<close> finds the donor, the function list of the parent module
  afterwards is the one before with the donor's cross-link written and one function put
  in right after the donor. That function takes no argument and returns a byte pointer;
  its body is a single block that computes the address of the first character of the
  global named after the donor and returns it, and nothing else. That global is the one
  \<open>generate\<close> adds to the globals of the parent module, holding the blob.
\<close>

theorem C5_accessor_shape_and_placement:
  assumes "lookupSymbol_FuncOp (moduleBody st) (fname kernelFunc) = Some (i, stubFunc)"
  shows "getOps_FuncOp (moduleBody st)
           = getOps_FuncOp (take i (moduleBody st)) @ [stubFunc]
             @ getOps_FuncOp (drop (Suc i) (moduleBody st))
       \<and> getOps_FuncOp (moduleBody (generate kernelFunc blob st))
           = getOps_FuncOp (take i (moduleBody st))
             @ [stubFunc\<lparr>fattrs := AList.update ''nvvm.cubingetter''
                            (SymbolRefAttr (fname stubFunc @ ''_cubin'')) (fattrs stubFunc)\<rparr>,
                \<lparr>fname = fname stubFunc @ ''_cubin'', ftype = ([], [LLVMInt8Ptr]), fattrs = [],
                 fbody = [[GlobalStringPtr (fname stubFunc @ ''_cubin_cst''),
                           LLVMReturn (GlobalStringPtr (fname stubFunc @ ''_cubin_cst''))]]\<rparr>]
             @ getOps_FuncOp (drop (Suc i) (moduleBody st))
       \<and> (\<exists>gs1 gs2. getOps_GlobalOp (moduleBody st) = gs1 @ gs2
            \<and> getOps_GlobalOp (moduleBody (generate kernelFunc blob st))
                = gs1 @ \<lparr>gname = fname stubFunc @ ''_cubin_cst'', gconstant = True, gvalue = blob\<rparr>
                  # gs2)"
proof -
  let ?ops = "moduleBody st"
  have dec: "?ops = take i ?ops @ FuncOp stubFunc # drop (Suc i) ?ops"
    by (rule lookup_decompose[OF assms])
  have f: "getOps_FuncOp ?ops
             = getOps_FuncOp (take i ?ops) @ [stubFunc] @ getOps_FuncOp (drop (Suc i) ?ops)"
    using arg_cong[OF dec, of getOps_FuncOp] by simp
  have g: "getOps_GlobalOp (take i ?ops) @ getOps_GlobalOp (drop (Suc i) ?ops) = getOps_GlobalOp ?ops"
    using arg_cong[OF dec, of getOps_GlobalOp] by simp
  have f': "getOps_FuncOp (moduleBody (generate kernelFunc blob st))
           = getOps_FuncOp (take i ?ops) @ [linkStub stubFunc, cubinGetter (fname stubFunc)]
             @ getOps_FuncOp (drop (Suc i) ?ops)"
    unfolding generate_found[OF assms] by simp
  have g': "getOps_GlobalOp (moduleBody (generate kernelFunc blob st))
           = cubinStorage (fname stubFunc) blob # getOps_GlobalOp ?ops"
    unfolding generate_found[OF assms] by (simp add: g)
  have g'': "\<exists>gs1 gs2. getOps_GlobalOp (moduleBody st) = gs1 @ gs2
            \<and> getOps_GlobalOp (moduleBody (generate kernelFunc blob st))
                = gs1 @ \<lparr>gname = fname stubFunc @ ''_cubin_cst'', gconstant = True, gvalue = blob\<rparr>
                  # gs2"
    using g' by (intro exI[of _ "[]"] exI[of _ "getOps_GlobalOp (moduleBody st)"])
      (simp add: cubinStorage_def kCubinStorageSuffix_def)
  have f'': "getOps_FuncOp (moduleBody (generate kernelFunc blob st))
           = getOps_FuncOp (take i (moduleBody st))
             @ [stubFunc\<lparr>fattrs := AList.update ''nvvm.cubingetter''
                            (SymbolRefAttr (fname stubFunc @ ''_cubin'')) (fattrs stubFunc)\<rparr>,
                \<lparr>fname = fname stubFunc @ ''_cubin'', ftype = ([], [LLVMInt8Ptr]), fattrs = [],
                 fbody = [[GlobalStringPtr (fname stubFunc @ ''_cubin_cst''),
                           LLVMReturn (GlobalStringPtr (fname stubFunc @ ''_cubin_cst''))]]\<rparr>]
             @ getOps_FuncOp (drop (Suc i) (moduleBody st))"
    using f'
    by (simp add: cubinGetter_def linkStub_def kCubinStorageSuffix_def
        kCubinGetterSuffix_def kCubinGetterAnnotation_def)
  show ?thesis
    using f f'' g'' by blast
qed

text \<open>
  Witness for C5: in \<open>exMixed\<close> the donor \<open>k3\<close> is at position 3, in the middle of the
  module body, so the getter is not put at the end.
\<close>

theorem C5_witness:
  "getOps_FuncOp (moduleBody exMixed)
           = getOps_FuncOp (take 3 (moduleBody exMixed)) @ [exStub ''k3'']
             @ getOps_FuncOp (drop (Suc 3) (moduleBody exMixed))
       \<and> getOps_FuncOp (moduleBody (generate (exKernel ''k3'' ''CC'') ''CC'' exMixed))
           = getOps_FuncOp (take 3 (moduleBody exMixed))
             @ [(exStub ''k3'')\<lparr>fattrs := AList.update ''nvvm.cubingetter''
                            (SymbolRefAttr (fname (exStub ''k3'') @ ''_cubin'')) (fattrs (exStub ''k3''))\<rparr>,
                \<lparr>fname = fname (exStub ''k3'') @ ''_cubin'', ftype = ([], [LLVMInt8Ptr]), fattrs = [],
                 fbody = [[GlobalStringPtr (fname (exStub ''k3'') @ ''_cubin_cst''),
                           LLVMReturn (GlobalStringPtr (fname (exStub ''k3'') @ ''_cubin_cst''))]]\<rparr>]
             @ getOps_FuncOp (drop (Suc 3) (moduleBody exMixed))
       \<and> (\<exists>gs1 gs2. getOps_GlobalOp (moduleBody exMixed) = gs1 @ gs2
            \<and> getOps_GlobalOp (moduleBody (generate (exKernel ''k3'' ''CC'') ''CC'' exMixed))
                = gs1 @ \<lparr>gname = fname (exStub ''k3'') @ ''_cubin_cst'', gconstant = True,
                          gvalue = ''CC''\<rparr>
                  # gs2)"
proof -
  have h: "lookupSymbol_FuncOp (moduleBody exMixed) (fname (exKernel ''k3'' ''CC''))
             = Some (3, exStub ''k3'')"
    by (simp add: ex_defs)
  show ?thesis
    by (rule C5_accessor_shape_and_placement[OF h])
qed

subsection \<open>C6: no flagged module remains\<close>

text \<open>
  Claim C6. After the pass, no nested module of the parent module carries the
  kernel-module flag. This holds for every run, whatever the flagged modules held:
  also one without any function that carries a blob.
\<close>

theorem C6_no_kernel_module_remains:
  "\<forall>(a, b) \<in> set (getOps_ModuleOp (moduleBody (runOnModule st))).
      \<not> getAttrOfType_UnitAttr a getKernelModuleAttrName"
  by (auto simp: modules_runOnModule)

text \<open>
  Witness for C6: of the five nested modules of \<open>exMixed\<close>, four carry the flag; one of
  these is empty and one holds only a function without blob. The module without the flag
  is still there after the pass.
\<close>

theorem C6_witness:
  "([], [FuncOp (exKernel ''host'' ''HH'')]) \<in> set (getOps_ModuleOp (moduleBody (runOnModule exMixed)))
   \<and> \<not> getAttrOfType_UnitAttr [] getKernelModuleAttrName
   \<and> length (getOps_ModuleOp (moduleBody exMixed)) = 5"
proof -
  have m: "([], [FuncOp (exKernel ''host'' ''HH'')])
             \<in> set (getOps_ModuleOp (moduleBody (runOnModule exMixed)))"
    by code_simp
  have l: "length (getOps_ModuleOp (moduleBody exMixed)) = 5"
    by (simp add: ex_defs)
  from C6_no_kernel_module_remains[of exMixed] m
  have "\<not> getAttrOfType_UnitAttr [] getKernelModuleAttrName" by blast
  then show ?thesis using m l by simp
qed

subsection \<open>C7: nothing is emitted for an unresolved donor\<close>

text \<open>
  Claim C7. For a source function whose name has no matching function in the parent
  module, \<open>generate\<close> emits nothing: the body of the parent module, with every function
  and attribute in it, is the same after the call as before.
\<close>

theorem C7_unresolved_donor_emits_nothing:
  assumes "fname kernelFunc \<notin> fname ` set (getOps_FuncOp (moduleBody st))"
  shows "moduleBody (generate kernelFunc blob st) = moduleBody st"
proof -
  have "lookupSymbol_FuncOp (moduleBody st) (fname kernelFunc) = None"
    using assms by (simp add: lookup_None_iff funcNames_def)
  then show ?thesis by (simp add: generate_not_found)
qed

text \<open>Witness for C7: the kernel \<open>k1\<close> of \<open>exMixed\<close> has no donor.\<close>

theorem C7_witness:
  "moduleBody (generate (exKernel ''k1'' ''AA'') ''AA'' exMixed) = moduleBody exMixed"
proof -
  have h: "fname (exKernel ''k1'' ''AA'') \<notin> fname ` set (getOps_FuncOp (moduleBody exMixed))"
    by (simp add: ex_defs)
  show ?thesis
    by (rule C7_unresolved_donor_emits_nothing[OF h])
qed

subsection \<open>C8: modules without the flag\<close>

text \<open>
  Claim C8. The nested modules of the parent module after the pass are exactly those
  that did not carry the kernel-module flag before, in their order, each with the
  attributes and the body it had. Nothing the pass emits comes from them: emptying
  every such module before the pass changes neither the functions nor the globals of
  the parent module after the pass.
\<close>

theorem C8_unflagged_modules_untouched:
  "getOps_ModuleOp (moduleBody (runOnModule st))
     = filter (\<lambda>(a, b). \<not> getAttrOfType_UnitAttr a getKernelModuleAttrName)
         (getOps_ModuleOp (moduleBody st))
   \<and> getOps_FuncOp (moduleBody
        (runOnModule (st\<lparr>moduleBody := map dropUnflaggedContents (moduleBody st)\<rparr>)))
     = getOps_FuncOp (moduleBody (runOnModule st))
   \<and> getOps_GlobalOp (moduleBody
        (runOnModule (st\<lparr>moduleBody := map dropUnflaggedContents (moduleBody st)\<rparr>)))
     = getOps_GlobalOp (moduleBody (runOnModule st))"
proof -
  let ?st' = "st\<lparr>moduleBody := map dropUnflaggedContents (moduleBody st)\<rparr>"
  let ?srcs = "kernelSources (getOps_ModuleOp (moduleBody st))"
  have u: "unflagged = (\<lambda>(a, b). \<not> getAttrOfType_UnitAttr a getKernelModuleAttrName)"
    by (auto simp: fun_eq_iff)
  have m: "getOps_ModuleOp (moduleBody (runOnModule st))
     = filter (\<lambda>(a, b). \<not> getAttrOfType_UnitAttr a getKernelModuleAttrName)
         (getOps_ModuleOp (moduleBody st))"
    using modules_runOnModule[of st] by (simp add: u)
  have "symbols ?st' = symbols st" by (simp add: symbols_def)
  then have "symbols (generateAll ?srcs ?st') = symbols (generateAll ?srcs st)"
    by (rule symbols_generateAll_cong)
  then have "symbols (runOnModule ?st') = symbols (runOnModule st)"
    by (simp add: symbols_runOnModule)
  then show ?thesis using m by (simp add: symbols_def)
qed

text \<open>
  Witness for C8: the one nested module of \<open>exMixed\<close> without the flag holds a function
  \<open>host\<close> that carries a blob; it is the only nested module after the pass, unchanged.
\<close>

theorem C8_witness:
  "getOps_ModuleOp (moduleBody (runOnModule exMixed))
     = [([], [FuncOp (exKernel ''host'' ''HH'')])]"
proof -
  have "filter (\<lambda>(a, b). \<not> getAttrOfType_UnitAttr a getKernelModuleAttrName)
          (getOps_ModuleOp (moduleBody exMixed))
        = [([], [FuncOp (exKernel ''host'' ''HH'')])]"
    by (simp add: exMixed_def exKernelModule_def getAttrOfType_UnitAttr_def)
  then show ?thesis
    using C8_unflagged_modules_untouched[of exMixed] by simp
qed

subsection \<open>C9: the pass goes on after an unresolved donor\<close>

text \<open>
  Claim C9. Whether or not donor resolution fails for some source functions, every
  function that carries a blob in a flagged nested module is handed to \<open>generate\<close>: each
  adds exactly one error or exactly one global, so the two counts grow together by the
  number of source functions. Every source function whose name is borne by a function of
  the parent module gets its global, also when an earlier one, in the same or in an
  earlier module, had no donor. And every flagged module is erased, the one that held a
  function without donor included.
\<close>

theorem C9_every_source_processed_despite_failures:
  "length (diags (runOnModule st)) + length (getOps_GlobalOp (moduleBody (runOnModule st)))
     = length (diags st) + length (getOps_GlobalOp (moduleBody st))
       + length (kernelSources (getOps_ModuleOp (moduleBody st)))
   \<and> (\<forall>(f, blob) \<in> set (kernelSources (getOps_ModuleOp (moduleBody st))).
         fname f \<in> fname ` set (getOps_FuncOp (moduleBody st)) \<longrightarrow>
         \<lparr>gname = fname f @ ''_cubin_cst'', gconstant = True, gvalue = blob\<rparr>
           \<in> set (getOps_GlobalOp (moduleBody (runOnModule st))))
   \<and> filter (\<lambda>(a, b). getAttrOfType_UnitAttr a getKernelModuleAttrName)
        (getOps_ModuleOp (moduleBody (runOnModule st))) = []"
proof -
  let ?srcs = "kernelSources (getOps_ModuleOp (moduleBody st))"
  have sym: "symbols (runOnModule st) = symbols (generateAll ?srcs st)"
    by (rule symbols_runOnModule)
  have g: "getOps_GlobalOp (moduleBody (runOnModule st))
             = getOps_GlobalOp (moduleBody (generateAll ?srcs st))"
    and d: "diags (runOnModule st) = diags (generateAll ?srcs st)"
    using sym by (simp_all add: symbols_def)
  have c: "length (diags (runOnModule st)) + length (getOps_GlobalOp (moduleBody (runOnModule st)))
     = length (diags st) + length (getOps_GlobalOp (moduleBody st)) + length ?srcs"
    unfolding g d by (rule count_generateAll)
  have p: "\<lparr>gname = fname f @ ''_cubin_cst'', gconstant = True, gvalue = blob\<rparr>
           \<in> set (getOps_GlobalOp (moduleBody (runOnModule st)))"
    if "(f, blob) \<in> set ?srcs" "fname f \<in> fname ` set (getOps_FuncOp (moduleBody st))" for f blob
    using global_of_resolvable_source[OF that(1), of st] that(2)
    by (simp add: g funcNames_def cubinStorage_def kCubinStorageSuffix_def)
  have e: "filter (\<lambda>(a, b). getAttrOfType_UnitAttr a getKernelModuleAttrName)
        (getOps_ModuleOp (moduleBody (runOnModule st))) = []"
    by (auto simp: modules_runOnModule filter_empty_conv)
  show ?thesis using c p e by blast
qed

text \<open>
  Witness for C9: in \<open>exMixed\<close> the kernel \<open>k1\<close> has no donor; \<open>k2\<close> follows it in the same
  module and \<open>k3\<close> is in a later one. Both get their globals, and the three source
  functions account for one error and two globals.
\<close>

theorem C9_witness:
  "length (diags (runOnModule exMixed)) + length (getOps_GlobalOp (moduleBody (runOnModule exMixed)))
     = 3
   \<and> \<lparr>gname = ''k2_cubin_cst'', gconstant = True, gvalue = ''BB''\<rparr>
       \<in> set (getOps_GlobalOp (moduleBody (runOnModule exMixed)))
   \<and> \<lparr>gname = ''k3_cubin_cst'', gconstant = True, gvalue = ''CC''\<rparr>
       \<in> set (getOps_GlobalOp (moduleBody (runOnModule exMixed)))"
proof -
  have s: "kernelSources (getOps_ModuleOp (moduleBody exMixed))
             = [(exKernel ''k1'' ''AA'', ''AA''), (exKernel ''k2'' ''BB'', ''BB''),
                (exKernel ''k3'' ''CC'', ''CC'')]"
    by (simp add: ex_defs)
  have n: "fname ` set (getOps_FuncOp (moduleBody exMixed)) = {''k2'', ''k3''}"
    by (simp add: ex_defs)
  have i: "length (diags exMixed) + length (getOps_GlobalOp (moduleBody exMixed)) = 0"
    by (simp add: ex_defs)
  show ?thesis
    using C9_every_source_processed_despite_failures[of exMixed] i
    unfolding s n by (simp add: exKernel_def)
qed

subsection \<open>C10: a donor with a body\<close>

text \<open>
  Claim C10. Donor resolution looks at the name only. Whatever the body of the first
  function of the parent module that bears the source function's name (\<open>d\<close> below, with
  nothing assumed about \<open>fbody d\<close>), the lookup returns that function, \<open>generate\<close> reports
  no error and signals no failure, and the function is linked and followed by the
  getter.
\<close>

theorem C10_donor_with_body_accepted:
  assumes "moduleBody st = pre @ FuncOp d # post"
    and "fname d = fname kernelFunc"
    and "fname kernelFunc \<notin> fname ` set (getOps_FuncOp pre)"
  shows "lookupSymbol_FuncOp (moduleBody st) (fname kernelFunc) = Some (length pre, d)
       \<and> failed (generate kernelFunc blob st) = failed st
       \<and> diags (generate kernelFunc blob st) = diags st
       \<and> getOps_FuncOp (moduleBody (generate kernelFunc blob st))
           = getOps_FuncOp pre
             @ [d\<lparr>fattrs := AList.update ''nvvm.cubingetter''
                            (SymbolRefAttr (fname d @ ''_cubin'')) (fattrs d)\<rparr>,
                \<lparr>fname = fname d @ ''_cubin'', ftype = ([], [LLVMInt8Ptr]), fattrs = [],
                 fbody = [[GlobalStringPtr (fname d @ ''_cubin_cst''),
                           LLVMReturn (GlobalStringPtr (fname d @ ''_cubin_cst''))]]\<rparr>]
             @ getOps_FuncOp post"
proof -
  have l: "lookupSymbol_FuncOp (moduleBody st) (fname kernelFunc) = Some (length pre, d)"
    unfolding assms(1) using assms(2,3) by (intro lookup_append) (simp_all add: funcNames_def)
  show ?thesis
    unfolding l generate_found[OF l]
    by (simp add: assms(1) cubinGetter_def linkStub_def kCubinStorageSuffix_def
        kCubinGetterSuffix_def kCubinGetterAnnotation_def)
qed

text \<open>Witness for C10: in \<open>exBodied\<close> the function \<open>kern\<close> of the parent module has a body.\<close>

theorem C10_witness:
  "fbody exBodiedDonor = [[OtherInst ''launch'']]
       \<and> lookupSymbol_FuncOp (moduleBody exBodied) (fname (exKernel ''kern'' ''ELF''))
     = Some (length [FuncOp (exStub ''main'')], exBodiedDonor)
       \<and> failed (generate (exKernel ''kern'' ''ELF'') ''ELF'' exBodied) = failed exBodied
       \<and> diags (generate (exKernel ''kern'' ''ELF'') ''ELF'' exBodied) = diags exBodied
       \<and> getOps_FuncOp (moduleBody (generate (exKernel ''kern'' ''ELF'') ''ELF'' exBodied))
           = getOps_FuncOp [FuncOp (exStub ''main'')]
             @ [exBodiedDonor\<lparr>fattrs := AList.update ''nvvm.cubingetter''
                            (SymbolRefAttr (fname exBodiedDonor @ ''_cubin'')) (fattrs exBodiedDonor)\<rparr>,
                \<lparr>fname = fname exBodiedDonor @ ''_cubin'', ftype = ([], [LLVMInt8Ptr]), fattrs = [],
                 fbody = [[GlobalStringPtr (fname exBodiedDonor @ ''_cubin_cst''),
                           LLVMReturn (GlobalStringPtr (fname exBodiedDonor @ ''_cubin_cst''))]]\<rparr>]
             @ getOps_FuncOp [exKernelModule [exKernel ''kern'' ''ELF'']]"
proof -
  have h1: "moduleBody exBodied
              = [FuncOp (exStub ''main'')] @ FuncOp exBodiedDonor # [exKernelModule [exKernel ''kern'' ''ELF'']]"
    by (simp add: exBodied_def)
  have h2: "fname exBodiedDonor = fname (exKernel ''kern'' ''ELF'')"
    by (simp add: ex_defs)
  have h3: "fname (exKernel ''kern'' ''ELF'') \<notin> fname ` set (getOps_FuncOp [FuncOp (exStub ''main'')])"
    by (simp add: ex_defs)
  have h4: "fbody exBodiedDonor = [[OtherInst ''launch'']]"
    by (simp add: ex_defs)
  show ?thesis
    using h4 C10_donor_with_body_accepted[OF h1 h2 h3, of "''ELF''"] by blast
qed

end
